theory Spec2Isabelle
  imports Complex_Main
begin

section \<open>Python values shared by both modules\<close>

text \<open>
  Exceptions that the two source files can raise themselves. A raising call is the left
  injection of a sum type; the state reached before the raise is discarded, as no caller in
  the two files catches anything.
\<close>

datatype error =
    ValueError string
  | KeyError string
  | ZeroDivisionError
  | AttributeError
  | TypeError string

section \<open>segmentation/data\_module.py\<close>

subsection \<open>The file system, as far as \<open>prepare_data\<close> reads it\<close>

text \<open>
  Only \<open>os.path.exists\<close> is asked of the file system, so it is the set of the paths that
  exist. \<open>path_join\<close> is \<open>os.path.join\<close> of POSIX on two components.
\<close>

type_synonym filesystem = "string set"

definition path_exists :: "filesystem \<Rightarrow> string \<Rightarrow> bool" where
  "path_exists fs p \<longleftrightarrow> p \<in> fs"

definition path_join :: "string \<Rightarrow> string \<Rightarrow> string" where
  "path_join a b =
     (if b \<noteq> [] \<and> hd b = CHR ''/'' then b
      else if a = [] \<or> last a = CHR ''/'' then a @ b
      else a @ ''/'' @ b)"

subsection \<open>Datasets, loaders and the data module\<close>

text \<open>
  \<open>PatchClassificationDataset\<close> and \<open>DataLoader\<close> are collaborators defined elsewhere; an
  instance is the record of the arguments it was constructed with. An optional argument
  that the caller leaves out is \<open>None\<close>. The attribute \<open>is_eval\<close> read by
  \<open>get_data_loader\<close> is the constructor argument of that name.
\<close>

record patch_classification_dataset =
  split_key :: string
  is_eval :: bool
  dataset_image_size :: int
  push_prototypes :: "bool option"
  length_multiplier :: "int option"

datatype kwval = VInt int | VBool bool | VStr string | VNone

type_synonym kwargs = "string \<rightharpoonup> kwval"

record data_loader =
  dataset :: patch_classification_dataset
  shuffle :: bool
  num_workers :: int
  extra_kwargs :: kwargs

record data_module =
  dataloader_n_jobs :: int
  model_image_size :: int
  push_length_multiplier :: int

text \<open>
  \<open>__init__\<close>: \<open>cpu_count\<close> is what \<open>multiprocessing.cpu_count()\<close> returns on the machine;
  the last argument is \<open>None\<close> when the caller relies on the default \<open>1\<close>.
\<close>

definition data_module_init :: "int \<Rightarrow> int \<Rightarrow> int \<Rightarrow> int option \<Rightarrow> data_module" where
  "data_module_init cpu_count image_size n_jobs multiplier =
     \<lparr> dataloader_n_jobs = (if n_jobs \<noteq> - 1 then n_jobs else cpu_count),
       model_image_size = image_size,
       push_length_multiplier = (case multiplier of None \<Rightarrow> 1 | Some m \<Rightarrow> m) \<rparr>"

text \<open>
  \<open>prepare_data\<close> reads the path \<open>os.path.join(data_path, 'annotations')\<close>; \<open>data_path\<close>
  comes from the settings module and is a parameter here. The function sees the file
  system and the module, and hands both back when it returns.
\<close>

definition prepare_data ::
  "string \<Rightarrow> filesystem \<times> data_module \<Rightarrow> error + filesystem \<times> data_module" where
  "prepare_data data_path w =
     (if \<not> path_exists (fst w) (path_join data_path ''annotations'')
      then Inl (ValueError ''Please download dataset and preprocess it using preprocess.py script'')
      else Inr w)"

text \<open>
  \<open>get_data_loader\<close> passes \<open>dataset\<close>, \<open>shuffle\<close> and \<open>num_workers\<close> by keyword and then
  unpacks \<open>**kwargs\<close>; Python raises \<open>TypeError\<close> when a keyword arrives twice.
\<close>

definition get_data_loader ::
  "data_module \<Rightarrow> patch_classification_dataset \<Rightarrow> kwargs \<Rightarrow> error + data_loader" where
  "get_data_loader self ds kw =
     (if kw ''dataset'' \<noteq> None then Inl (TypeError ''dataset'')
      else if kw ''shuffle'' \<noteq> None then Inl (TypeError ''shuffle'')
      else if kw ''num_workers'' \<noteq> None then Inl (TypeError ''num_workers'')
      else Inr \<lparr> dataset = ds,
                 shuffle = (\<not> is_eval ds),
                 num_workers = dataloader_n_jobs self,
                 extra_kwargs = kw \<rparr>)"

definition train_dataloader :: "data_module \<Rightarrow> kwargs \<Rightarrow> error + data_loader" where
  "train_dataloader self kw =
     (let train_split = \<lparr> split_key = ''train'', is_eval = False,
                          dataset_image_size = model_image_size self,
                          push_prototypes = None, length_multiplier = None \<rparr>
      in get_data_loader self train_split kw)"

definition val_dataloader :: "data_module \<Rightarrow> kwargs \<Rightarrow> error + data_loader" where
  "val_dataloader self kw =
     (let val_split = \<lparr> split_key = ''val'', is_eval = True,
                        dataset_image_size = model_image_size self,
                        push_prototypes = None, length_multiplier = None \<rparr>
      in get_data_loader self val_split kw)"

definition test_dataloader :: "data_module \<Rightarrow> kwargs \<Rightarrow> error + data_loader" where
  "test_dataloader self kw =
     (let test_split = \<lparr> split_key = ''val'', is_eval = True,
                         dataset_image_size = model_image_size self,
                         push_prototypes = None, length_multiplier = None \<rparr>
      in get_data_loader self test_split kw)"

definition train_push_dataloader :: "data_module \<Rightarrow> kwargs \<Rightarrow> error + data_loader" where
  "train_push_dataloader self kw =
     (let train_split = \<lparr> split_key = ''train'', is_eval = True,
                          dataset_image_size = model_image_size self,
                          push_prototypes = Some True,
                          length_multiplier = Some (push_length_multiplier self) \<rparr>
      in get_data_loader self train_split kw)"

text \<open>The four loader constructors of the module, to speak about all of them at once.\<close>

definition dataloaders :: "(data_module \<Rightarrow> kwargs \<Rightarrow> error + data_loader) list" where
  "dataloaders = [train_dataloader, val_dataloader, test_dataloader, train_push_dataloader]"

definition kwargs_clash :: "kwargs \<Rightarrow> bool" where
  "kwargs_clash kw \<longleftrightarrow>
     kw ''dataset'' \<noteq> None \<or> kw ''shuffle'' \<noteq> None \<or> kw ''num_workers'' \<noteq> None"

section \<open>sliding\_window/module.py\<close>

subsection \<open>Metric accumulators\<close>

text \<open>
  The dictionary returned by \<open>reset_metrics\<close> has a fixed set of keys, so it is a record.
  The three counters are Python integers; the other entries receive \<open>.item()\<close> values,
  which are floating-point numbers, read here as the real numbers they stand for.
\<close>

record metric_sums =
  n_examples :: int
  n_correct :: int
  n_batches :: int
  cross_entropy :: real
  cluster_cost :: real
  loss :: real
  separation_cost :: real
  avg_separation_cost :: real

definition reset_metrics :: metric_sums where
  "reset_metrics =
     \<lparr> n_examples = 0, n_correct = 0, n_batches = 0, cross_entropy = 0,
       cluster_cost = 0, loss = 0, separation_cost = 0, avg_separation_cost = 0 \<rparr>"

subsection \<open>Optimizers\<close>

text \<open>
  An optimizer is what the module reads and writes of it: the list of its parameter
  groups and the learning rate among its defaults. A group names the part of the network
  it trains; an entry the specification of the group leaves out is \<open>None\<close>.
\<close>

datatype param_set = Features | AddOnLayers | PrototypeVectors | LastLayer

record param_group =
  params :: param_set
  lr :: real
  weight_decay :: "real option"

record optimizer =
  param_groups :: "param_group list"
  defaults_lr :: real

definition get_lr :: "optimizer \<Rightarrow> real option" where
  "get_lr optimizer =
     (case param_groups optimizer of [] \<Rightarrow> None | param_group # _ \<Rightarrow> Some (lr param_group))"

definition update_lr_warmup :: "optimizer \<Rightarrow> int \<Rightarrow> int \<Rightarrow> optimizer" where
  "update_lr_warmup optimizer current_step warmup_batches =
     (if warmup_batches > 0 then
        if current_step < warmup_batches then
          let lr_scale = min 1 (real_of_int (current_step + 1) / real_of_int warmup_batches)
          in optimizer\<lparr> param_groups :=
               map (\<lambda>pg. pg\<lparr> lr := lr_scale * defaults_lr optimizer \<rparr>) (param_groups optimizer) \<rparr>
        else optimizer
      else optimizer)"

text \<open>
  \<open>torch.optim.Adam(specs)\<close> called with the groups alone: the learning rate among the
  defaults is the constructor's own default, a parameter here.
\<close>

definition Adam :: "real \<Rightarrow> param_group list \<Rightarrow> optimizer" where
  "Adam default_lr specs = \<lparr> param_groups = specs, defaults_lr = default_lr \<rparr>"

subsection \<open>The module and the calls it makes\<close>

text \<open>
  The module keeps two optimizers, in the order \<open>configure_optimizers\<close> returns them.
\<close>

datatype optim_id = Warm | Main

datatype scheduler = ReduceLROnPlateau optim_id

text \<open>
  Calls that leave the module (into the training framework, the logger, the file system
  and the collaborators \<open>warm_only\<close>, \<open>joint\<close>, \<open>last_only\<close> and
  \<open>save_model_w_condition\<close>) are recorded, in order, as events. What such a call does to the
  network's parameters or to the optimizer's inner state is the collaborator's; the event
  stands for it.
\<close>

datatype event =
    MakeDirs string
  | Log string
  | LogSavingBest real real
  | SelfLog string "real option"
  | ZeroGrad optim_id
  | ManualBackward real
  | ClipGradNorm real
  | OptimizerStep optim_id
  | WarmOnly
  | Joint
  | LastOnly
  | SchedulerStep scheduler real
  | SaveModelWCondition string string real real

record hparams =
  model_dir :: string
  module_image_size :: int
  last_layer_only :: bool
  class_specific :: bool
  num_warm_epochs :: int
  loss_weight_crs_ent :: real
  loss_weight_clst :: real
  loss_weight_sep :: real
  loss_weight_l1 :: real
  joint_optimizer_lr_features :: real
  joint_optimizer_lr_add_on_layers :: real
  joint_optimizer_lr_prototype_vectors :: real
  joint_optimizer_weight_decay :: real
  warm_optimizer_lr_add_on_layers :: real
  warm_optimizer_lr_prototype_vectors :: real
  warm_optimizer_weight_decay :: real
  last_layer_optimizer_lr :: real
  warmup_batches :: int
  gradient_clipping :: "real option"

text \<open>
  What the module reads of the trainer it is attached to: \<open>self.current_epoch\<close>,
  \<open>self.trainer.global_step\<close> and the pair \<open>self.optimizers()\<close>.
\<close>

record trainer =
  current_epoch :: int
  global_step :: int
  optimizers :: "optimizer \<times> optimizer"

record module =
  config :: hparams
  prototypes_dir :: string
  checkpoints_dir :: string
  metrics :: "string \<rightharpoonup> metric_sums"
  lr_scheduler :: "scheduler option"
  automatic_optimization :: bool
  best_acc :: real
  trainer :: trainer
  events :: "event list"

text \<open>
  \<open>__init__\<close>. The trainer is attached by the framework before any hook runs; the model
  attaches it at construction.
\<close>

definition module_init :: "hparams \<Rightarrow> trainer \<Rightarrow> module" where
  "module_init hp tr =
     (let pdir = path_join (model_dir hp) ''prototypes'';
          cdir = path_join (model_dir hp) ''checkpoints''
      in \<lparr> config = hp,
           prototypes_dir = pdir,
           checkpoints_dir = cdir,
           metrics = [''train'' \<mapsto> reset_metrics, ''val'' \<mapsto> reset_metrics,
                      ''test'' \<mapsto> reset_metrics, ''train_last_layer'' \<mapsto> reset_metrics],
           lr_scheduler = None,
           automatic_optimization = False,
           best_acc = 0,
           trainer = tr,
           events = [MakeDirs pdir, MakeDirs cdir] \<rparr>)"

subsection \<open>One step on a batch\<close>

text \<open>
  The tensor arithmetic of \<open>_step\<close> is done by the framework on floating-point tensors.
  Its results for the batch at hand, under the network's current parameters, are the
  input of the model: the targets and the predicted classes, the cross-entropy, and the
  cluster cost, separation cost, average separation cost and L1 norm as each branch of
  \<open>class_specific\<close> computes them.
\<close>

record batch_eval =
  target :: "int list"
  predicted :: "int list"
  batch_cross_entropy :: real
  masked_cluster_cost :: real
  masked_separation_cost :: real
  masked_avg_separation_cost :: real
  masked_l1 :: real
  min_cluster_cost :: real
  full_l1 :: real

definition n_equal :: "int list \<Rightarrow> int list \<Rightarrow> int" where
  "n_equal xs ys = int (length (filter (\<lambda>(x, y). x = y) (zip xs ys)))"

text \<open>The value of \<open>loss\<close> in \<open>_step\<close>, lines 185 to 193.\<close>

definition step_loss :: "hparams \<Rightarrow> batch_eval \<Rightarrow> real" where
  "step_loss hp b =
     (if class_specific hp then
        loss_weight_crs_ent hp * batch_cross_entropy b
        + loss_weight_clst hp * masked_cluster_cost b
        + loss_weight_sep hp * masked_separation_cost b
        + loss_weight_l1 hp * masked_l1 b
      else
        loss_weight_crs_ent hp * batch_cross_entropy b
        + loss_weight_clst hp * min_cluster_cost b
        + loss_weight_sep hp * full_l1 b)"

text \<open>The accumulators after the batch, lines 168 to 195.\<close>

definition accumulate :: "hparams \<Rightarrow> batch_eval \<Rightarrow> metric_sums \<Rightarrow> metric_sums" where
  "accumulate hp b m =
     (let m1 = (if class_specific hp
                then m\<lparr> separation_cost := separation_cost m + masked_separation_cost b,
                        avg_separation_cost := avg_separation_cost m + masked_avg_separation_cost b \<rparr>
                else m);
          cc = (if class_specific hp then masked_cluster_cost b else min_cluster_cost b)
      in m1\<lparr> n_examples := n_examples m1 + int (length (target b)),
             n_correct := n_correct m1 + n_equal (predicted b) (target b),
             n_batches := n_batches m1 + 1,
             cross_entropy := cross_entropy m1 + batch_cross_entropy b,
             cluster_cost := cluster_cost m1 + cc,
             loss := loss m1 + step_loss hp b \<rparr>)"

text \<open>The optimizer that a training step drives, lines 200 to 206.\<close>

definition step_optimizer :: "module \<Rightarrow> optim_id" where
  "step_optimizer self =
     (if last_layer_only (config self) then Main
      else if current_epoch (trainer self) < num_warm_epochs (config self) then Warm
      else Main)"

definition the_optimizer :: "trainer \<Rightarrow> optim_id \<Rightarrow> optimizer" where
  "the_optimizer tr i = (case i of Warm \<Rightarrow> fst (optimizers tr) | Main \<Rightarrow> snd (optimizers tr))"

definition set_optimizer :: "trainer \<Rightarrow> optim_id \<Rightarrow> optimizer \<Rightarrow> trainer" where
  "set_optimizer tr i opt =
     (case i of Warm \<Rightarrow> tr\<lparr> optimizers := (opt, snd (optimizers tr)) \<rparr>
              | Main \<Rightarrow> tr\<lparr> optimizers := (fst (optimizers tr), opt) \<rparr>)"

text \<open>The training branch of \<open>_step\<close>, lines 197 to 220, on the module after the accumulation.\<close>

definition train_branch :: "module \<Rightarrow> real \<Rightarrow> module" where
  "train_branch self loss_value =
     (let i = step_optimizer self;
          optimizer = update_lr_warmup (the_optimizer (trainer self) i)
                        (global_step (trainer self)) (warmup_batches (config self))
      in self\<lparr> trainer := set_optimizer (trainer self) i optimizer,
               events := events self
                 @ [ZeroGrad i, ManualBackward loss_value]
                 @ (case gradient_clipping (config self) of
                      None \<Rightarrow> [] | Some g \<Rightarrow> [ClipGradNorm g])
                 @ [OptimizerStep i,
                    SelfLog ''train_loss_step'' (Some loss_value),
                    SelfLog ''lr'' (get_lr optimizer)] \<rparr>)"

text \<open>
  \<open>_step\<close>; \<open>key\<close> is its argument \<open>split_key\<close>. \<open>self.metrics[split_key]\<close> raises
  \<open>KeyError\<close> on an unknown split.
\<close>

definition step :: "module \<Rightarrow> string \<Rightarrow> batch_eval \<Rightarrow> error + module" where
  "step self key b =
     (case metrics self key of
        None \<Rightarrow> Inl (KeyError key)
      | Some m \<Rightarrow>
          let self1 = self\<lparr> metrics := (metrics self)(key \<mapsto> accumulate (config self) b m) \<rparr>
          in if key = ''train''
             then Inr (train_branch self1 (step_loss (config self) b))
             else Inr self1)"

definition training_step :: "module \<Rightarrow> batch_eval \<Rightarrow> error + module" where
  "training_step self b = step self ''train'' b"

definition validation_step :: "module \<Rightarrow> batch_eval \<Rightarrow> error + module" where
  "validation_step self b = step self ''val'' b"

definition test_step :: "module \<Rightarrow> batch_eval \<Rightarrow> error + module" where
  "test_step self b = step self ''test'' b"

subsection \<open>Epoch hooks\<close>

text \<open>
  \<open>on_train_epoch_start\<close>: the phase of the epoch is set by one of \<open>last_only\<close>,
  \<open>warm_only\<close> and \<open>joint\<close>, then every entry of \<open>self.metrics\<close> is replaced by a fresh
  \<open>reset_metrics()\<close>.
\<close>

definition on_train_epoch_start :: "module \<Rightarrow> module" where
  "on_train_epoch_start self =
     (let epoch = current_epoch (trainer self);
          phase =
            (if last_layer_only (config self) then [LastOnly]
             else (if epoch = 0 then [Log ''WARM-UP START.''] else [])
                  @ (if epoch < num_warm_epochs (config self) then [WarmOnly]
                     else [Joint]
                          @ (if epoch = num_warm_epochs (config self)
                             then [Log ''WARM-UP END.''] else [])))
      in self\<lparr> events := events self @ phase,
               metrics := (\<lambda>key. map_option (\<lambda>_. reset_metrics) (metrics self key)) \<rparr>)"

text \<open>
  \<open>on_validation_epoch_end\<close>, in three parts. Lines 253 to 266 choose \<open>stage_key\<close> and
  make the calls of the stage; \<open>self.lr_scheduler.step\<close> raises \<open>AttributeError\<close> while
  \<open>lr_scheduler\<close> is still \<open>None\<close>.
\<close>

definition validation_stage :: "module \<Rightarrow> real \<Rightarrow> error + string \<times> event list" where
  "validation_stage self val_acc =
     (if last_layer_only (config self) then
        (case lr_scheduler self of
           None \<Rightarrow> Inl AttributeError
         | Some sch \<Rightarrow>
             Inr (''push'', [SelfLog ''training_stage'' (Some 2), SchedulerStep sch val_acc]))
      else if current_epoch (trainer self) < num_warm_epochs (config self) then
        Inr (''warmup'', [SelfLog ''training_stage'' (Some 0)])
      else
        (case lr_scheduler self of
           None \<Rightarrow> Inl AttributeError
         | Some sch \<Rightarrow>
             Inr (''nopush'', [SelfLog ''training_stage'' (Some 1), SchedulerStep sch val_acc])))"

text \<open>Lines 268 to 286: the two calls of \<open>save_model_w_condition\<close>.\<close>

definition save_checkpoints :: "module \<Rightarrow> string \<Rightarrow> real \<Rightarrow> real \<Rightarrow> module" where
  "save_checkpoints self stage_key val_acc val_loss =
     (let self1 =
            (if val_acc > best_acc self then
               self\<lparr> best_acc := val_acc,
                      events := events self
                        @ [LogSavingBest val_acc val_loss,
                           SaveModelWCondition (checkpoints_dir self)
                             (stage_key @ ''_best'') val_acc 0] \<rparr>
             else self)
      in self1\<lparr> events := events self1
                @ [SaveModelWCondition (checkpoints_dir self1)
                     (stage_key @ ''_last'') val_acc 0] \<rparr>)"

text \<open>
  The whole hook. Both quotients of lines 250 and 251 are Python divisions and raise
  \<open>ZeroDivisionError\<close> on a zero divisor.
\<close>

definition on_validation_epoch_end :: "module \<Rightarrow> error + module" where
  "on_validation_epoch_end self =
     (case metrics self ''val'' of
        None \<Rightarrow> Inl (KeyError ''val'')
      | Some m \<Rightarrow>
          if n_examples m = 0 then Inl ZeroDivisionError
          else if n_batches m = 0 then Inl ZeroDivisionError
          else
            let val_acc = real_of_int (n_correct m) / real_of_int (n_examples m);
                val_loss = loss m / real_of_int (n_batches m)
            in (case validation_stage self val_acc of
                  Inl e \<Rightarrow> Inl e
                | Inr (stage_key, calls) \<Rightarrow>
                    Inr (save_checkpoints (self\<lparr> events := events self @ calls \<rparr>)
                           stage_key val_acc val_loss)))"

text \<open>
  \<open>_epoch_end\<close> logs the averages of a split. The norm of the last layer and the average
  distance between prototypes are computed by the framework and are parameters here.
\<close>

definition epoch_end :: "module \<Rightarrow> string \<Rightarrow> real \<Rightarrow> real \<Rightarrow> error + module" where
  "epoch_end self key l1 p_avg_pair_dist =
     (case metrics self key of
        None \<Rightarrow> Inl (KeyError key)
      | Some m \<Rightarrow>
          if n_batches m = 0 then Inl ZeroDivisionError
          else if n_examples m = 0 then Inl ZeroDivisionError
          else
            let n = real_of_int (n_batches m)
            in Inr (self\<lparr> events := events self
                      @ [SelfLog (key @ ''/loss'') (Some (loss m / n)),
                         SelfLog (key @ ''/cross_entropy'') (Some (cross_entropy m / n)),
                         SelfLog (key @ ''/cluster_cost'') (Some (cluster_cost m / n)),
                         SelfLog (key @ ''/separation_cost'') (Some (separation_cost m / n)),
                         SelfLog (key @ ''/avg_separation_cost'')
                           (Some (avg_separation_cost m / n)),
                         SelfLog (key @ ''/accuracy'')
                           (Some (real_of_int (n_correct m) / real_of_int (n_examples m))),
                         SelfLog ''l1'' (Some l1),
                         SelfLog ''p dist pair'' (Some p_avg_pair_dist)] \<rparr>))"

subsection \<open>Optimizer configuration\<close>

definition configure_optimizers :: "real \<Rightarrow> module \<Rightarrow> (optimizer \<times> optimizer) \<times> module" where
  "configure_optimizers adam_lr self =
     (let hp = config self;
          warm_optimizer_specs =
            [\<lparr> params = AddOnLayers, lr = warm_optimizer_lr_add_on_layers hp,
               weight_decay = Some (warm_optimizer_weight_decay hp) \<rparr>,
             \<lparr> params = PrototypeVectors, lr = warm_optimizer_lr_prototype_vectors hp,
               weight_decay = None \<rparr>];
          warm_optimizer = Adam adam_lr warm_optimizer_specs;
          main_optimizer_specs =
            (if last_layer_only hp then
               [\<lparr> params = LastLayer, lr = last_layer_optimizer_lr hp, weight_decay = None \<rparr>]
             else
               [\<lparr> params = Features, lr = joint_optimizer_lr_features hp,
                  weight_decay = Some (joint_optimizer_weight_decay hp) \<rparr>,
                \<lparr> params = AddOnLayers, lr = joint_optimizer_lr_add_on_layers hp,
                  weight_decay = Some (joint_optimizer_weight_decay hp) \<rparr>,
                \<lparr> params = PrototypeVectors, lr = joint_optimizer_lr_prototype_vectors hp,
                  weight_decay = None \<rparr>]);
          main_optimizer = Adam adam_lr main_optimizer_specs
      in ((warm_optimizer, main_optimizer),
          self\<lparr> lr_scheduler := Some (ReduceLROnPlateau Main) \<rparr>))"

subsection \<open>The states a module can reach\<close>

text \<open>
  A module starts at \<open>__init__\<close>; from then on the framework calls its hooks in an order
  of its own and is free to change what it owns (the epoch, the step counter, the
  optimizers) in between. A hook that raises ends the run.
\<close>

inductive hook :: "module \<Rightarrow> module \<Rightarrow> bool" where
  configure: "hook s (snd (configure_optimizers adam_lr s))"
| framework: "hook s (s\<lparr> trainer := tr \<rparr>)"
| batch: "step s key b = Inr s' \<Longrightarrow> hook s s'"
| train_epoch_start: "hook s (on_train_epoch_start s)"
| validation_epoch_end: "on_validation_epoch_end s = Inr s' \<Longrightarrow> hook s s'"
| split_epoch_end: "epoch_end s key l1 d = Inr s' \<Longrightarrow> hook s s'"

inductive reachable :: "module \<Rightarrow> bool" where
  init: "reachable (module_init hp tr)"
| after: "reachable s \<Longrightarrow> hook s s' \<Longrightarrow> reachable s'"

definition split_keys :: "string set" where
  "split_keys = {''train'', ''val'', ''test'', ''train_last_layer''}"

subsection \<open>Reading the event list\<close>

text \<open>The events a hook added, given the module before and after it.\<close>

definition new_events :: "module \<Rightarrow> module \<Rightarrow> event list" where
  "new_events s s' = drop (length (events s)) (events s')"

fun is_optimizer_call :: "event \<Rightarrow> bool" where
  "is_optimizer_call (ZeroGrad _) = True"
| "is_optimizer_call (ManualBackward _) = True"
| "is_optimizer_call (ClipGradNorm _) = True"
| "is_optimizer_call (OptimizerStep _) = True"
| "is_optimizer_call _ = False"

text \<open>The names under which \<open>save_model_w_condition\<close> was called, in order.\<close>

fun saved_names :: "event list \<Rightarrow> string list" where
  "saved_names [] = []"
| "saved_names (SaveModelWCondition dir name accu target_accu # es) = name # saved_names es"
| "saved_names (_ # es) = saved_names es"

subsection \<open>The loss as the specification words it\<close>

text \<open>
  The weighted sum of the four terms, each with the weight configured for it. In \<open>_step\<close>
  the separation cost is \<open>0\<close> unless \<open>class_specific\<close> is set.
\<close>

definition four_term_loss :: "hparams \<Rightarrow> real \<Rightarrow> real \<Rightarrow> real \<Rightarrow> real \<Rightarrow> real" where
  "four_term_loss hp crs_ent clst sep l1 =
     loss_weight_crs_ent hp * crs_ent + loss_weight_clst hp * clst
     + loss_weight_sep hp * sep + loss_weight_l1 hp * l1"

subsection \<open>Sample values\<close>

definition sample_config :: hparams where
  "sample_config =
     \<lparr> model_dir = ''run'', module_image_size = 64, last_layer_only = False,
       class_specific = False, num_warm_epochs = 2,
       loss_weight_crs_ent = 1, loss_weight_clst = 1, loss_weight_sep = 2, loss_weight_l1 = 3,
       joint_optimizer_lr_features = 1 / 10, joint_optimizer_lr_add_on_layers = 1 / 10,
       joint_optimizer_lr_prototype_vectors = 1 / 10, joint_optimizer_weight_decay = 0,
       warm_optimizer_lr_add_on_layers = 1 / 10, warm_optimizer_lr_prototype_vectors = 1 / 10,
       warm_optimizer_weight_decay = 0, last_layer_optimizer_lr = 1 / 100,
       warmup_batches = 4, gradient_clipping = Some 1 \<rparr>"

definition sample_optimizer :: optimizer where
  "sample_optimizer =
     Adam (1 / 1000) [\<lparr> params = AddOnLayers, lr = 1 / 10, weight_decay = Some 0 \<rparr>,
                      \<lparr> params = PrototypeVectors, lr = 1 / 10, weight_decay = None \<rparr>]"

definition sample_trainer :: trainer where
  "sample_trainer =
     \<lparr> current_epoch = 0, global_step = 1, optimizers = (sample_optimizer, sample_optimizer) \<rparr>"

definition sample_batch :: batch_eval where
  "sample_batch =
     \<lparr> target = [1, 2, 0], predicted = [1, 0, 0], batch_cross_entropy = 0,
       masked_cluster_cost = 0, masked_separation_cost = 0, masked_avg_separation_cost = 0,
       masked_l1 = 0, min_cluster_cost = 0, full_l1 = 1 \<rparr>"

definition sample_module :: module where
  "sample_module = module_init sample_config sample_trainer"

definition sample_data_module :: data_module where
  "sample_data_module = data_module_init 8 64 (- 1) None"

section \<open>Properties of the data module\<close>

lemma get_data_loader_clash:
  "kwargs_clash kw \<Longrightarrow> \<exists>e. get_data_loader self ds kw = Inl e"
  by (auto simp: kwargs_clash_def get_data_loader_def)

lemma get_data_loader_ok:
  "\<not> kwargs_clash kw \<Longrightarrow>
   get_data_loader self ds kw =
     Inr \<lparr> dataset = ds, shuffle = (\<not> is_eval ds),
           num_workers = dataloader_n_jobs self, extra_kwargs = kw \<rparr>"
  by (simp add: kwargs_clash_def get_data_loader_def)

lemma get_data_loader_Inr:
  "get_data_loader self ds kw = Inr dl \<Longrightarrow>
   dl = \<lparr> dataset = ds, shuffle = (\<not> is_eval ds),
          num_workers = dataloader_n_jobs self, extra_kwargs = kw \<rparr>"
  by (auto simp: get_data_loader_def split: if_splits)

text \<open>
  Claim C6. \<open>prepare_data\<close> raises exactly when the path \<open>data_path/annotations\<close> does
  not exist, what it raises is a \<open>ValueError\<close>, and when the path exists it returns with
  the file system and the module as they were.
\<close>

theorem prepare_data_raises_iff_annotations_missing:
  "((\<exists>e. prepare_data data_path (fs, self) = Inl e)
      \<longleftrightarrow> \<not> path_exists fs (path_join data_path ''annotations''))
   \<and> (\<forall>e. prepare_data data_path (fs, self) = Inl e \<longrightarrow> (\<exists>msg. e = ValueError msg))
   \<and> (path_exists fs (path_join data_path ''annotations'')
        \<longrightarrow> prepare_data data_path (fs, self) = Inr (fs, self))"
  by (auto simp: prepare_data_def)

theorem prepare_data_witness:
  "path_exists {''/data/annotations''} (path_join ''/data'' ''annotations'')
   \<and> prepare_data ''/data'' ({''/data/annotations''}, sample_data_module)
       = Inr ({''/data/annotations''}, sample_data_module)
   \<and> \<not> path_exists {} (path_join ''/data'' ''annotations'')
   \<and> (\<exists>msg. prepare_data ''/data'' ({}, sample_data_module) = Inl (ValueError msg))"
  using prepare_data_raises_iff_annotations_missing
          [of "''/data''" "{''/data/annotations''}" sample_data_module]
        prepare_data_raises_iff_annotations_missing
          [of "''/data''" "{}" sample_data_module]
  by (simp add: path_exists_def path_join_def prepare_data_def)

text \<open>
  Claim C7. Every loader that one of the four constructors builds has \<open>num_workers\<close> equal
  to the \<open>dataloader_n_jobs\<close> the module was created with, or to \<open>cpu_count()\<close> when that
  argument was \<open>-1\<close>; and each constructor does build a loader unless \<open>kwargs\<close> repeats a
  keyword that \<open>get_data_loader\<close> passes itself. A constructor yields the loader and
  nothing else.
\<close>

theorem dataloader_num_workers:
  "(\<forall>f \<in> set dataloaders. \<forall>dl.
       f (data_module_init cpu_count image_size n_jobs multiplier) kw = Inr dl
       \<longrightarrow> num_workers dl = (if n_jobs = - 1 then cpu_count else n_jobs))
   \<and> (\<not> kwargs_clash kw \<longrightarrow>
        (\<forall>f \<in> set dataloaders. \<exists>dl.
           f (data_module_init cpu_count image_size n_jobs multiplier) kw = Inr dl))"
  by (auto simp: dataloaders_def train_dataloader_def val_dataloader_def test_dataloader_def
        train_push_dataloader_def data_module_init_def get_data_loader_ok
      dest!: get_data_loader_Inr)

theorem dataloader_num_workers_witness:
  "train_dataloader \<in> set dataloaders
   \<and> \<not> kwargs_clash [''batch_size'' \<mapsto> VInt 4]
   \<and> (\<exists>dl. train_dataloader (data_module_init 8 64 (- 1) None) [''batch_size'' \<mapsto> VInt 4] = Inr dl
          \<and> num_workers dl = 8)
   \<and> (\<exists>dl. train_dataloader (data_module_init 8 64 2 None) [''batch_size'' \<mapsto> VInt 4] = Inr dl
          \<and> num_workers dl = 2)"
  using dataloader_num_workers [of 8 64 "- 1" None "[''batch_size'' \<mapsto> VInt 4]"]
        dataloader_num_workers [of 8 64 2 None "[''batch_size'' \<mapsto> VInt 4]"]
  by (simp add: dataloaders_def kwargs_clash_def train_dataloader_def get_data_loader_def
        data_module_init_def)

text \<open>
  Claim C9. The dataset of the test loader has \<open>split_key = 'val'\<close> and \<open>is_eval = True\<close>;
  the test loader is the validation loader, so what is measured on it is measured on
  validation data.
\<close>

theorem test_dataloader_reads_val_split:
  "(\<forall>dl. test_dataloader self kw = Inr dl
        \<longrightarrow> split_key (dataset dl) = ''val'' \<and> is_eval (dataset dl))
   \<and> test_dataloader self kw = val_dataloader self kw
   \<and> (\<not> kwargs_clash kw \<longrightarrow> (\<exists>dl. test_dataloader self kw = Inr dl))"
  by (auto simp: test_dataloader_def val_dataloader_def get_data_loader_ok
      dest!: get_data_loader_Inr)

theorem test_dataloader_witness:
  "\<not> kwargs_clash Map.empty
   \<and> (\<exists>dl. test_dataloader sample_data_module Map.empty = Inr dl
          \<and> split_key (dataset dl) = ''val'' \<and> is_eval (dataset dl))"
  using test_dataloader_reads_val_split [of sample_data_module Map.empty]
  by (simp add: kwargs_clash_def test_dataloader_def val_dataloader_def get_data_loader_def)

text \<open>
  Claim C10. \<open>get_data_loader\<close> sets \<open>shuffle\<close> to the negation of the dataset's
  \<open>is_eval\<close>: the train loader shuffles, the validation, test and train-push loaders do
  not.
\<close>

theorem shuffle_is_not_is_eval:
  "(\<forall>dl. get_data_loader self ds kw = Inr dl \<longrightarrow> shuffle dl = (\<not> is_eval ds))
   \<and> (\<forall>dl. train_dataloader self kw = Inr dl \<longrightarrow> shuffle dl)
   \<and> (\<forall>f \<in> {val_dataloader, test_dataloader, train_push_dataloader}.
         \<forall>dl. f self kw = Inr dl \<longrightarrow> \<not> shuffle dl)
   \<and> (\<not> kwargs_clash kw \<longrightarrow> (\<forall>f \<in> set dataloaders. \<exists>dl. f self kw = Inr dl))"
  by (auto simp: dataloaders_def train_dataloader_def val_dataloader_def test_dataloader_def
        train_push_dataloader_def get_data_loader_ok
      dest!: get_data_loader_Inr)

theorem shuffle_witness:
  "\<not> kwargs_clash Map.empty
   \<and> (\<exists>dl. train_dataloader sample_data_module Map.empty = Inr dl \<and> shuffle dl)
   \<and> (\<exists>dl. val_dataloader sample_data_module Map.empty = Inr dl \<and> \<not> shuffle dl)
   \<and> (\<exists>dl. train_push_dataloader sample_data_module Map.empty = Inr dl \<and> \<not> shuffle dl)"
  using shuffle_is_not_is_eval
          [of sample_data_module "\<lparr> split_key = ''val'', is_eval = True, dataset_image_size = 64,
                push_prototypes = None, length_multiplier = None \<rparr>" Map.empty]
  by (simp add: kwargs_clash_def dataloaders_def train_dataloader_def val_dataloader_def
        test_dataloader_def train_push_dataloader_def get_data_loader_def)

section \<open>Properties of a step\<close>

lemma step_unknown_split:
  "metrics self key = None \<Longrightarrow> step self key b = Inl (KeyError key)"
  by (simp add: step_def)

lemma step_eval:
  "metrics self key = Some m \<Longrightarrow> key \<noteq> ''train'' \<Longrightarrow>
   step self key b = Inr (self\<lparr> metrics := (metrics self)(key \<mapsto> accumulate (config self) b m) \<rparr>)"
  by (simp add: step_def)

lemma step_train:
  "metrics self ''train'' = Some m \<Longrightarrow>
   step self ''train'' b =
     Inr (train_branch
            (self\<lparr> metrics := (metrics self)(''train'' \<mapsto> accumulate (config self) b m) \<rparr>)
            (step_loss (config self) b))"
  by (simp add: step_def)

lemma train_branch_frame:
  "metrics (train_branch s v) = metrics s"
  "config (train_branch s v) = config s"
  "best_acc (train_branch s v) = best_acc s"
  "lr_scheduler (train_branch s v) = lr_scheduler s"
  "checkpoints_dir (train_branch s v) = checkpoints_dir s"
  by (simp_all add: train_branch_def Let_def)

lemma train_branch_events:
  "events (train_branch s v) =
     events s
     @ [ZeroGrad (step_optimizer s), ManualBackward v]
     @ (case gradient_clipping (config s) of None \<Rightarrow> [] | Some g \<Rightarrow> [ClipGradNorm g])
     @ [OptimizerStep (step_optimizer s),
        SelfLog ''train_loss_step'' (Some v),
        SelfLog ''lr'' (get_lr (update_lr_warmup (the_optimizer (trainer s) (step_optimizer s))
                                 (global_step (trainer s)) (warmup_batches (config s))))]"
  by (simp add: train_branch_def Let_def)

lemma the_optimizer_set_same:
  "the_optimizer (set_optimizer tr i opt) i = opt"
  by (cases i) (simp_all add: the_optimizer_def set_optimizer_def)

lemma the_optimizer_set_other:
  "j \<noteq> i \<Longrightarrow> the_optimizer (set_optimizer tr i opt) j = the_optimizer tr j"
  by (cases i; cases j) (simp_all add: the_optimizer_def set_optimizer_def)

lemma set_optimizer_frame:
  "current_epoch (set_optimizer tr i opt) = current_epoch tr"
  "global_step (set_optimizer tr i opt) = global_step tr"
  by (cases i; simp add: set_optimizer_def)+

lemma train_branch_trainer:
  "trainer (train_branch s v) =
     set_optimizer (trainer s) (step_optimizer s)
       (update_lr_warmup (the_optimizer (trainer s) (step_optimizer s))
          (global_step (trainer s)) (warmup_batches (config s)))"
  by (simp add: train_branch_def Let_def)

lemma step_optimizer_metrics [simp]:
  "step_optimizer (s\<lparr> metrics := f \<rparr>) = step_optimizer s"
  by (simp add: step_optimizer_def)

lemma new_events_append [simp]:
  "events s' = events s @ es \<Longrightarrow> new_events s s' = es"
  by (simp add: new_events_def)

text \<open>
  Claim C4. On a known split \<open>_step\<close> returns, and it calls the optimizer machinery
  (\<open>zero_grad\<close>, \<open>manual_backward\<close>, gradient clipping when configured, \<open>optimizer.step\<close>,
  after the warm-up update of the learning rate) exactly when the split is \<open>'train'\<close>. On
  every other split the module after the step is the module before it with the
  accumulators of that one split replaced: no call is made, and the trainer with its
  optimizers, the other splits and every other attribute are as before.
\<close>

theorem step_optimizer_calls_only_in_training:
  assumes "metrics self key = Some m"
  shows "\<exists>self'. step self key b = Inr self'
     \<and> ((\<exists>e \<in> set (new_events self self'). is_optimizer_call e) \<longleftrightarrow> key = ''train'')
     \<and> (key = ''train'' \<longrightarrow>
          new_events self self' =
            [ZeroGrad (step_optimizer self), ManualBackward (step_loss (config self) b)]
            @ (case gradient_clipping (config self) of None \<Rightarrow> [] | Some g \<Rightarrow> [ClipGradNorm g])
            @ [OptimizerStep (step_optimizer self),
               SelfLog ''train_loss_step'' (Some (step_loss (config self) b)),
               SelfLog ''lr'' (get_lr (the_optimizer (trainer self') (step_optimizer self)))]
          \<and> the_optimizer (trainer self') (step_optimizer self) =
              update_lr_warmup (the_optimizer (trainer self) (step_optimizer self))
                (global_step (trainer self)) (warmup_batches (config self)))
     \<and> (key \<noteq> ''train'' \<longrightarrow>
          self' = self\<lparr> metrics := (metrics self)(key \<mapsto> accumulate (config self) b m) \<rparr>
          \<and> trainer self' = trainer self \<and> events self' = events self
          \<and> (\<forall>k. k \<noteq> key \<longrightarrow> metrics self' k = metrics self k))"
proof (cases "key = ''train''")
  case True
  let ?s1 = "self\<lparr> metrics := (metrics self)(''train'' \<mapsto> accumulate (config self) b m) \<rparr>"
  let ?s' = "train_branch ?s1 (step_loss (config self) b)"
  have st: "step self key b = Inr ?s'"
    using assms True by (simp add: step_train)
  have ev: "events ?s' = events self
     @ ([ZeroGrad (step_optimizer self), ManualBackward (step_loss (config self) b)]
     @ (case gradient_clipping (config self) of None \<Rightarrow> [] | Some g \<Rightarrow> [ClipGradNorm g])
     @ [OptimizerStep (step_optimizer self),
        SelfLog ''train_loss_step'' (Some (step_loss (config self) b)),
        SelfLog ''lr'' (get_lr (the_optimizer (trainer ?s') (step_optimizer self)))])"
    by (simp add: train_branch_events train_branch_trainer the_optimizer_set_same)
  have ne: "new_events self ?s' =
     [ZeroGrad (step_optimizer self), ManualBackward (step_loss (config self) b)]
     @ (case gradient_clipping (config self) of None \<Rightarrow> [] | Some g \<Rightarrow> [ClipGradNorm g])
     @ [OptimizerStep (step_optimizer self),
        SelfLog ''train_loss_step'' (Some (step_loss (config self) b)),
        SelfLog ''lr'' (get_lr (the_optimizer (trainer ?s') (step_optimizer self)))]"
    using ev by (rule new_events_append)
  have oc: "\<exists>e \<in> set (new_events self ?s'). is_optimizer_call e"
    unfolding ne by simp
  have opt: "the_optimizer (trainer ?s') (step_optimizer self) =
      update_lr_warmup (the_optimizer (trainer self) (step_optimizer self))
        (global_step (trainer self)) (warmup_batches (config self))"
    by (simp add: train_branch_trainer the_optimizer_set_same)
  show ?thesis using st True ne oc opt by blast
next
  case False
  let ?s' = "self\<lparr> metrics := (metrics self)(key \<mapsto> accumulate (config self) b m) \<rparr>"
  have st: "step self key b = Inr ?s'"
    using assms False by (simp add: step_eval)
  have ne: "new_events self ?s' = []" by (simp add: new_events_def)
  have fr: "trainer ?s' = trainer self" "events ?s' = events self"
      "\<forall>k. k \<noteq> key \<longrightarrow> metrics ?s' k = metrics self k"
    by simp_all
  have "\<not> (\<exists>e \<in> set (new_events self ?s'). is_optimizer_call e)"
    unfolding ne by simp
  then show ?thesis using st False fr by blast
qed


lemma sample_metrics:
  "metrics sample_module ''train'' = Some reset_metrics"
  "metrics sample_module ''val'' = Some reset_metrics"
  by (simp_all add: sample_module_def module_init_def Let_def)

theorem step_optimizer_calls_witness:
  "metrics sample_module ''val'' = Some reset_metrics
   \<and> metrics sample_module ''train'' = Some reset_metrics
   \<and> (\<exists>self'. step sample_module ''val'' sample_batch = Inr self'
         \<and> new_events sample_module self' = []
         \<and> trainer self' = trainer sample_module)
   \<and> (\<exists>self'. step sample_module ''train'' sample_batch = Inr self'
         \<and> new_events sample_module self' =
             [ZeroGrad Warm, ManualBackward 2, ClipGradNorm 1, OptimizerStep Warm,
              SelfLog ''train_loss_step'' (Some 2), SelfLog ''lr'' (Some (1 / 2000))])"
proof -
  have v: "metrics sample_module ''val'' = Some reset_metrics"
    and t: "metrics sample_module ''train'' = Some reset_metrics"
    by (rule sample_metrics)+
  have a: "step_optimizer sample_module = Warm"
    by (simp add: step_optimizer_def sample_module_def module_init_def sample_config_def
          sample_trainer_def Let_def)
  have b: "step_loss (config sample_module) sample_batch = 2"
    by (simp add: step_loss_def sample_module_def module_init_def sample_config_def
          sample_batch_def Let_def)
  have c: "gradient_clipping (config sample_module) = Some 1"
    by (simp add: sample_module_def module_init_def sample_config_def Let_def)
  have d: "get_lr (update_lr_warmup (the_optimizer (trainer sample_module) Warm)
             (global_step (trainer sample_module)) (warmup_batches (config sample_module)))
           = Some (1 / 2000)"
    by (simp add: sample_module_def module_init_def sample_config_def sample_trainer_def
          sample_optimizer_def Adam_def the_optimizer_def update_lr_warmup_def get_lr_def Let_def)
  from step_optimizer_calls_only_in_training [OF v, of sample_batch]
  have 1: "\<exists>self'. step sample_module ''val'' sample_batch = Inr self'
         \<and> new_events sample_module self' = []
         \<and> trainer self' = trainer sample_module"
    by (auto simp: new_events_def)
  from step_optimizer_calls_only_in_training [OF t, of sample_batch]
  have 2: "\<exists>self'. step sample_module ''train'' sample_batch = Inr self'
         \<and> new_events sample_module self' =
             [ZeroGrad Warm, ManualBackward 2, ClipGradNorm 1, OptimizerStep Warm,
              SelfLog ''train_loss_step'' (Some 2), SelfLog ''lr'' (Some (1 / 2000))]"
    by (auto simp: a b c d)
  show ?thesis using v t 1 2 by blast
qed

end
